theory Spec2Isabelle
  imports Main "HOL-Library.Sublist"
begin

section \<open>Data model of \<^verbatim>\<open>src/main.ts\<close>\<close>

text \<open>
  \<^verbatim>\<open>interface File { path: string; basename: string; }\<close> and
  \<^verbatim>\<open>interface RecentFilesData { recentFiles: File[]; omittedPaths: string[]; maxLength: number; }\<close>.
  The handlers receive a \<^verbatim>\<open>TFile\<close>, of which only \<open>path\<close> and \<open>basename\<close> are
  read, so a \<^verbatim>\<open>TFile\<close> is a \<open>File\<close> here. \<open>maxLength\<close> is a JavaScript number; the
  model covers its integer values, negative ones included.
\<close>

record File =
  path :: string
  basename :: string

record RecentFilesData =
  recentFiles :: "File list"
  omittedPaths :: "string list"
  maxLength :: int

definition DEFAULT_DATA :: RecentFilesData where
  "DEFAULT_DATA = \<lparr>recentFiles = [], omittedPaths = [], maxLength = 5\<rparr>"

subsection \<open>The rendered view\<close>

text \<open>
  A DOM element with its class list, its text and its children. \<^verbatim>\<open>createDiv\<close> appends
  the new element to its parent; \<^verbatim>\<open>addClass\<close> appends to the class list. The click
  handler that \<^verbatim>\<open>redraw\<close> registers on each row is not part of the element.
\<close>

datatype el = El (classList: "string list") (textContent: string) (children: "el list")

subsection \<open>The plugin and its view as one state\<close>

text \<open>
  The view's \<^verbatim>\<open>this.data\<close> and the plugin's \<^verbatim>\<open>this.data\<close> are the same object
  (the constructor stores the reference), so there is one \<open>data\<close> field.
  \<open>activeFile\<close> is what \<^verbatim>\<open>app.workspace.getActiveFile()\<close> returns (\<open>None\<close> for
  \<^verbatim>\<open>null\<close>), \<open>contentEl\<close> the children of \<^verbatim>\<open>containerEl.children[1]\<close>, and \<open>effects\<close>
  the calls that leave the object, oldest first: each \<^verbatim>\<open>super.saveData(this.data)\<close> with
  the data it was handed, and each completed \<^verbatim>\<open>redraw\<close>.
\<close>

datatype effect = Saved RecentFilesData | Redrawn

record plugin =
  data :: RecentFilesData
  activeFile :: "File option"
  contentEl :: "el list"
  effects :: "effect list"

text \<open>A call either returns or throws a \<^verbatim>\<open>TypeError\<close>; both leave a state behind.\<close>

datatype outcome = Returned plugin | Threw plugin

fun after :: "outcome \<Rightarrow> plugin" where
  "after (Returned w) = w"
| "after (Threw w) = w"

section \<open>Built-ins of the language\<close>

text \<open>
  \<^verbatim>\<open>Array.prototype.splice(start, deleteCount, ...items)\<close> on integer arguments, as
  ECMAScript defines it: a negative \<open>start\<close> counts from the end and is clamped at 0, a
  \<open>start\<close> beyond the end is clamped to the length, and \<open>deleteCount\<close> is clamped to
  what is left after the start. The result is the array after the call.
\<close>

definition Array_splice :: "'a list \<Rightarrow> int \<Rightarrow> int \<Rightarrow> 'a list \<Rightarrow> 'a list" where
  "Array_splice xs start deleteCount items =
     (let len = int (length xs);
          actualStart = (if start < 0 then max (len + start) 0 else min start len);
          actualDeleteCount = min (max deleteCount 0) (len - actualStart)
      in take (nat actualStart) xs @ items @ drop (nat (actualStart + actualDeleteCount)) xs)"

text \<open>\<^verbatim>\<open>String.prototype.startsWith(searchString)\<close> at position 0.\<close>

definition startsWith :: "string \<Rightarrow> string \<Rightarrow> bool" where
  "startsWith s searchString =
     (length searchString \<le> length s \<and> take (length searchString) s = searchString)"

section \<open>The plugin\<close>

text \<open>\<^verbatim>\<open>saveData\<close>: hands the current data to the host's \<^verbatim>\<open>super.saveData\<close>.\<close>

definition saveData :: "plugin \<Rightarrow> plugin" where
  "saveData w = w\<lparr>effects := effects w @ [Saved (data w)]\<rparr>"

text \<open>
  \<^verbatim>\<open>shouldAddFile\<close>: \<^verbatim>\<open>find\<close> returns the first element that satisfies the callback or
  \<^verbatim>\<open>undefined\<close>; the elements are strings, so the comparison with \<^verbatim>\<open>undefined\<close> holds
  exactly when \<^verbatim>\<open>find\<close> found nothing.
\<close>

definition shouldAddFile :: "plugin \<Rightarrow> File \<Rightarrow> bool" where
  "shouldAddFile w file =
     (find (\<lambda>omittedPath. startsWith (path file) omittedPath)
        (filter (\<lambda>path. length path > 0) (omittedPaths (data w))) = None)"

definition pruneOmittedFiles :: "plugin \<Rightarrow> plugin" where
  "pruneOmittedFiles w =
     saveData (w\<lparr>data := (data w)\<lparr>recentFiles := filter (shouldAddFile w) (recentFiles (data w))\<rparr>\<rparr>)"

section \<open>The view\<close>

definition updateData :: "plugin \<Rightarrow> File \<Rightarrow> plugin" where
  "updateData w file =
     (let filtered = filter (\<lambda>currFile. basename currFile \<noteq> basename file) (recentFiles (data w));
          inserted = Array_splice filtered 0 0 [\<lparr>path = path file, basename = basename file\<rparr>];
          toRemove = int (length inserted) - maxLength (data w);
          truncated = (if toRemove > 0
                       then Array_splice inserted (int (length inserted) - toRemove) toRemove []
                       else inserted)
      in saveData (w\<lparr>data := (data w)\<lparr>recentFiles := truncated\<rparr>\<rparr>))"

text \<open>One row of the list, for the entry \<open>currentFile\<close> while \<open>openFile\<close> is active.\<close>

definition navFile :: "File \<Rightarrow> File \<Rightarrow> el" where
  "navFile openFile currentFile =
     El [''nav-file''] []
       [El (''nav-file-title'' #
              (if basename currentFile = basename openFile then [''is-active''] else [])) []
          [El [''nav-file-title-content''] (basename currentFile) []]]"

definition rootEl :: "el list \<Rightarrow> el" where
  "rootEl rows = El [''nav-folder'', ''mod-root''] [] [El [''nav-folder-children''] [] rows]"

text \<open>
  \<^verbatim>\<open>redraw\<close>: the callback of \<^verbatim>\<open>forEach\<close> reads \<^verbatim>\<open>openFile.basename\<close>, which throws
  when there is no active file; with an empty list the callback never runs. The throw
  happens while the new tree is still detached, so it leaves the state as it was.
\<close>

definition redraw :: "plugin \<Rightarrow> outcome" where
  "redraw w =
     (case activeFile w of
        None \<Rightarrow>
          (if recentFiles (data w) = []
           then Returned (w\<lparr>contentEl := [rootEl []], effects := effects w @ [Redrawn]\<rparr>)
           else Threw w)
      | Some openFile \<Rightarrow>
          Returned (w\<lparr>contentEl := [rootEl (map (navFile openFile) (recentFiles (data w)))],
                      effects := effects w @ [Redrawn]\<rparr>))"

definition update :: "plugin \<Rightarrow> File \<Rightarrow> outcome" where
  "update w openedFile =
     (if \<not> shouldAddFile w openedFile then Returned w
      else redraw (updateData w openedFile))"

text \<open>
  The settings tab and the file-open event call these in any order: a run of the store's
  two mutators from a state.
\<close>

datatype operation = Touch File | Prune

fun step :: "plugin \<Rightarrow> operation \<Rightarrow> plugin" where
  "step w (Touch file) = updateData w file"
| "step w Prune = pruneOmittedFiles w"

definition run :: "plugin \<Rightarrow> operation list \<Rightarrow> plugin" where
  "run w ops = foldl step w ops"

section \<open>Loading\<close>

text \<open>
  What the host's \<^verbatim>\<open>super.loadData()\<close> resolves to is parsed JSON: \<open>None\<close> stands for
  \<^verbatim>\<open>null\<close> (no file yet), \<open>Some props\<close> for an object with the own properties \<open>props\<close>.
  Nothing checks the blob against \<^verbatim>\<open>RecentFilesData\<close>, so its values are plain JSON.
\<close>

datatype json =
  JNull | JBool bool | JNum int | JStr string | JArr "json list" | JObj "(string \<times> json) list"

type_synonym object = "string \<rightharpoonup> json"

text \<open>
  \<^verbatim>\<open>Object.assign(target, source)\<close>: a \<^verbatim>\<open>null\<close> source is skipped, otherwise every own
  property of the source is written to the target.
\<close>

definition Object_assign :: "object \<Rightarrow> object option \<Rightarrow> object" where
  "Object_assign target source = (case source of None \<Rightarrow> target | Some props \<Rightarrow> target ++ props)"

text \<open>A value of the declared types as the object it is at run time.\<close>

definition File_object :: "File \<Rightarrow> json" where
  "File_object f = JObj [(''path'', JStr (path f)), (''basename'', JStr (basename f))]"

definition RecentFilesData_object :: "RecentFilesData \<Rightarrow> object" where
  "RecentFilesData_object d =
     [''recentFiles'' \<mapsto> JArr (map File_object (recentFiles d)),
      ''omittedPaths'' \<mapsto> JArr (map JStr (omittedPaths d)),
      ''maxLength'' \<mapsto> JNum (maxLength d)]"

text \<open>
  \<^verbatim>\<open>loadData\<close>, as \<^verbatim>\<open>onload\<close> calls it: once, while \<^verbatim>\<open>DEFAULT_DATA\<close> still holds the
  values it was declared with (\<^verbatim>\<open>Object.assign\<close> writes into it).
\<close>

definition loadData :: "object option \<Rightarrow> object" where
  "loadData blob = Object_assign (RecentFilesData_object DEFAULT_DATA) blob"

section \<open>Observations the properties are stated with\<close>

text \<open>The list holds at most \<open>maxLength\<close> entries.\<close>

definition bounded :: "plugin \<Rightarrow> bool" where
  "bounded w = (int (length (recentFiles (data w))) \<le> maxLength (data w))"

text \<open>No two entries of the list share a basename.\<close>

definition deduplicated :: "plugin \<Rightarrow> bool" where
  "deduplicated w = distinct (map basename (recentFiles (data w)))"

text \<open>The entries of a list that carry a given basename.\<close>

definition entriesNamed :: "string \<Rightarrow> File list \<Rightarrow> File list" where
  "entriesNamed name files = filter (\<lambda>e. basename e = name) files"

text \<open>
  The rows on screen: the children of the \<^verbatim>\<open>nav-folder-children\<close> element of the tree
  that \<^verbatim>\<open>redraw\<close> attached; the label of a row is the text \<^verbatim>\<open>handleFileClick\<close> reads
  from it, and a row is active when its title carries the class \<^verbatim>\<open>is-active\<close>.
\<close>

fun rows :: "plugin \<Rightarrow> el list" where
  "rows w = (case contentEl w of [El _ _ [El _ _ rs]] \<Rightarrow> rs | _ \<Rightarrow> [])"

fun rowLabel :: "el \<Rightarrow> string" where
  "rowLabel (El _ _ (El _ _ (El _ t _ # _) # _)) = t"
| "rowLabel _ = []"

fun rowActive :: "el \<Rightarrow> bool" where
  "rowActive (El _ _ (El c _ _ # _)) = (''is-active'' \<in> set c)"
| "rowActive _ = False"

text \<open>
  The new entry in front of the entries with another basename, cut to \<open>maxLength\<close>
  entries; a negative \<open>maxLength\<close> cuts that many entries off the end instead.
\<close>

definition touched :: "plugin \<Rightarrow> File \<Rightarrow> File list" where
  "touched w file =
     \<lparr>path = path file, basename = basename file\<rparr> #
     filter (\<lambda>currFile. basename currFile \<noteq> basename file) (recentFiles (data w))"

section \<open>The scenarios of the specification\<close>

text \<open>A plugin right after loading: nothing drawn, nothing saved, no active file.\<close>

definition loaded :: "File list \<Rightarrow> string list \<Rightarrow> int \<Rightarrow> plugin" where
  "loaded files paths n =
     \<lparr>data = \<lparr>recentFiles = files, omittedPaths = paths, maxLength = n\<rparr>,
      activeFile = None, contentEl = [], effects = []\<rparr>"

definition fileA :: File where "fileA = \<lparr>path = ''/a'', basename = ''A''\<rparr>"
definition fileB :: File where "fileB = \<lparr>path = ''/b'', basename = ''B''\<rparr>"
definition fileC :: File where "fileC = \<lparr>path = ''/c'', basename = ''C''\<rparr>"
definition daily :: File where
  "daily = \<lparr>path = ''daily/2024-01-01'', basename = ''2024-01-01''\<rparr>"
definition dailyA :: File where "dailyA = \<lparr>path = ''daily/x'', basename = ''A''\<rparr>"
definition otherA :: File where "otherA = \<lparr>path = ''/notes/a'', basename = ''A''\<rparr>"

lemmas scenario_defs =
  loaded_def fileA_def fileB_def fileC_def daily_def dailyA_def otherA_def
  updateData_def pruneOmittedFiles_def saveData_def
  shouldAddFile_def startsWith_def Array_splice_def Let_def

section \<open>Facts about the built-ins\<close>

lemma splice_insert_front: "Array_splice xs 0 0 [x] = x # xs"
  by (simp add: Array_splice_def)

lemma splice_truncate:
  assumes "0 < int (length xs) - m"
  shows "Array_splice xs (int (length xs) - (int (length xs) - m)) (int (length xs) - m) [] =
         take (nat (if m < 0 then int (length xs) + m else m)) xs"
  using assms by (auto simp: Array_splice_def Let_def min_def max_def)

lemma startsWith_prefix: "startsWith s p = prefix p s"
proof
  assume "startsWith s p"
  then have "take (length p) s = p" by (simp add: startsWith_def)
  then have "s = p @ drop (length p) s" by (metis append_take_drop_id)
  then show "prefix p s" by (rule prefixI)
next
  assume "prefix p s"
  then obtain zs where "s = p @ zs" by (rule prefixE)
  then show "startsWith s p" by (simp add: startsWith_def)
qed

section \<open>The list after a touch\<close>

lemma recentFiles_updateData:
  "recentFiles (data (updateData w file)) =
     take (nat (if maxLength (data w) < 0 then int (length (touched w file)) + maxLength (data w)
                else maxLength (data w)))
       (touched w file)"
proof (cases "0 < int (length (touched w file)) - maxLength (data w)")
  case True
  from splice_truncate [OF True] show ?thesis
    by (simp add: updateData_def saveData_def splice_insert_front Let_def touched_def)
next
  case False
  then show ?thesis
    by (simp add: updateData_def saveData_def splice_insert_front Let_def touched_def)
qed

lemma data_updateData:
  "data (updateData w file) = (data w)\<lparr>recentFiles := recentFiles (data (updateData w file))\<rparr>"
  by (simp add: updateData_def saveData_def Let_def)

lemma data_pruneOmittedFiles:
  "data (pruneOmittedFiles w) =
     (data w)\<lparr>recentFiles := filter (shouldAddFile w) (recentFiles (data w))\<rparr>"
  by (simp add: pruneOmittedFiles_def saveData_def)

lemma maxLength_updateData: "maxLength (data (updateData w file)) = maxLength (data w)"
  by (simp add: updateData_def saveData_def Let_def)

section \<open>The bound on the length\<close>

lemma length_updateData:
  "0 \<le> maxLength (data w) \<Longrightarrow>
   int (length (recentFiles (data (updateData w file)))) \<le> maxLength (data w)"
  by (simp add: recentFiles_updateData)

lemma bounded_updateData: "0 \<le> maxLength (data w) \<Longrightarrow> bounded (updateData w file)"
  by (simp add: bounded_def length_updateData maxLength_updateData)

lemma bounded_nonneg: "bounded w \<Longrightarrow> 0 \<le> maxLength (data w)"
  by (simp add: bounded_def)

lemma bounded_touches: "bounded w \<Longrightarrow> bounded (foldl updateData w files)"
proof (induction files arbitrary: w)
  case Nil
  then show ?case by simp
next
  case (Cons f fs)
  from Cons.prems have "bounded (updateData w f)"
    by (intro bounded_updateData bounded_nonneg)
  then show ?case by (simp add: Cons.IH)
qed

text \<open>
  C1. After \<open>updateData\<close> the list holds at most \<open>maxLength\<close> entries, for every state
  whose \<open>maxLength\<close> is a count (not negative) and every file. From a state within the
  bound, the state after each call of a sequence of touches (the first \<open>n\<close> of \<open>files\<close>) is
  within the bound. With \<open>maxLength = 0\<close> the list is empty after a touch.
\<close>

theorem touch_keeps_bound:
  "(0 \<le> maxLength (data w) \<longrightarrow> bounded (updateData w file)) \<and>
   (bounded w \<longrightarrow> bounded (foldl updateData w (take n files))) \<and>
   (maxLength (data w) = 0 \<longrightarrow> recentFiles (data (updateData w file)) = [])"
  by (simp add: bounded_updateData bounded_touches recentFiles_updateData)

text \<open>
  The scenario \<open>maxLength = 2\<close>, touch A, B, C: the bound holds after the second and the
  third touch, and the list is then C, B. With \<open>maxLength = 0\<close> a touch leaves the list empty.
\<close>

theorem touch_keeps_bound_witness:
  "0 \<le> maxLength (data (loaded [fileB, fileA] [] 2)) \<and>
   bounded (loaded [] [] 2) \<and>
   bounded (updateData (loaded [fileB, fileA] [] 2) fileC) \<and>
   bounded (foldl updateData (loaded [] [] 2) (take 2 [fileA, fileB, fileC])) \<and>
   recentFiles (data (foldl updateData (loaded [] [] 2) [fileA, fileB, fileC])) = [fileC, fileB] \<and>
   maxLength (data (loaded [fileA] [] 0)) = 0 \<and>
   recentFiles (data (updateData (loaded [fileA] [] 0) fileB)) = []"
  using touch_keeps_bound [of "loaded [fileB, fileA] [] 2" fileC 0 "[]"]
    touch_keeps_bound [of "loaded [] [] 2" fileA 2 "[fileA, fileB, fileC]"]
    touch_keeps_bound [of "loaded [fileA] [] 0" fileB 0 "[]"]
  by (simp add: bounded_def scenario_defs)

section \<open>One entry for each basename\<close>

lemma distinct_touched:
  "distinct (map basename xs) \<Longrightarrow>
   distinct (map basename (\<lparr>path = p, basename = b\<rparr> # filter (\<lambda>c. basename c \<noteq> b) xs))"
  by (auto simp: distinct_map_filter)

lemma deduplicated_updateData: "deduplicated w \<Longrightarrow> deduplicated (updateData w file)"
  unfolding deduplicated_def recentFiles_updateData touched_def take_map [symmetric]
  by (rule distinct_take) (rule distinct_touched)

lemma deduplicated_pruneOmittedFiles: "deduplicated w \<Longrightarrow> deduplicated (pruneOmittedFiles w)"
  by (simp add: deduplicated_def data_pruneOmittedFiles distinct_map_filter)

lemma deduplicated_step: "deduplicated w \<Longrightarrow> deduplicated (step w x)"
  by (cases x) (simp_all add: deduplicated_updateData deduplicated_pruneOmittedFiles)

lemma deduplicated_run: "deduplicated w \<Longrightarrow> deduplicated (run w ops)"
  unfolding run_def by (induction ops arbitrary: w) (simp_all add: deduplicated_step)

text \<open>
  C2. From a state in which no two entries share a basename, no two entries share a
  basename after \<open>updateData\<close>, after \<open>pruneOmittedFiles\<close>, and after every sequence of the
  two.
\<close>

theorem dedup_invariant:
  "(deduplicated w \<longrightarrow> deduplicated (updateData w file)) \<and>
   (deduplicated w \<longrightarrow> deduplicated (pruneOmittedFiles w)) \<and>
   (deduplicated w \<longrightarrow> deduplicated (run w ops))"
  by (simp add: deduplicated_updateData deduplicated_pruneOmittedFiles deduplicated_run)

theorem dedup_invariant_witness:
  "deduplicated (loaded [fileA, fileB, fileC] [''/b''] 3) \<and>
   deduplicated (updateData (loaded [fileA, fileB, fileC] [''/b''] 3) fileB) \<and>
   deduplicated (pruneOmittedFiles (loaded [fileA, fileB, fileC] [''/b''] 3)) \<and>
   deduplicated (run (loaded [fileA, fileB, fileC] [''/b''] 3) [Touch fileC, Prune, Touch fileA])"
  using dedup_invariant [of "loaded [fileA, fileB, fileC] [''/b''] 3" fileB
      "[Touch fileC, Prune, Touch fileA]"]
  by (simp add: deduplicated_def scenario_defs)

section \<open>The touched file comes first\<close>

lemma subseq_take: "subseq (take k xs) xs"
  by (metis append_take_drop_id list_emb_append_mono subseq_order.order_refl list_emb_Nil
      append_Nil2)

text \<open>
  C3. With \<open>maxLength\<close> at least 1, after \<open>updateData\<close> the entry made of the file's path
  and basename is at position 0, and behind it stand the earlier entries with another
  basename, in the order they had, as far as the bound lets them.
\<close>

theorem touch_moves_to_head:
  "1 \<le> maxLength (data w) \<Longrightarrow>
   recentFiles (data (updateData w file)) =
     \<lparr>path = path file, basename = basename file\<rparr> #
     take (nat (maxLength (data w) - 1))
       (filter (\<lambda>currFile. basename currFile \<noteq> basename file) (recentFiles (data w))) \<and>
   recentFiles (data (updateData w file)) ! 0 = \<lparr>path = path file, basename = basename file\<rparr> \<and>
   subseq (tl (recentFiles (data (updateData w file)))) (recentFiles (data w))"
proof -
  let ?rest = "filter (\<lambda>currFile. basename currFile \<noteq> basename file) (recentFiles (data w))"
  assume "1 \<le> maxLength (data w)"
  then have k: "nat (maxLength (data w)) = Suc (nat (maxLength (data w) - 1))"
    and pos: "\<not> maxLength (data w) < 0"
    by simp_all
  have 1: "recentFiles (data (updateData w file)) =
      \<lparr>path = path file, basename = basename file\<rparr> # take (nat (maxLength (data w) - 1)) ?rest"
    unfolding recentFiles_updateData touched_def using pos by (simp add: k)
  have "subseq (take (nat (maxLength (data w) - 1)) ?rest) ?rest"
    by (rule subseq_take)
  also have "subseq ?rest (recentFiles (data w))"
    by (rule subseq_filter_left)
  finally have "subseq (tl (recentFiles (data (updateData w file)))) (recentFiles (data w))"
    by (simp add: 1)
  with 1 show ?thesis by simp
qed

text \<open>The scenario: the list is A, B, C with \<open>maxLength = 3\<close>; touching B gives B, A, C.\<close>

theorem touch_moves_to_head_witness:
  "1 \<le> maxLength (data (loaded [fileA, fileB, fileC] [] 3)) \<and>
   recentFiles (data (updateData (loaded [fileA, fileB, fileC] [] 3) fileB)) =
     [fileB, fileA, fileC] \<and>
   recentFiles (data (updateData (loaded [fileA, fileB, fileC] [] 3) fileB)) ! 0 = fileB"
  using touch_moves_to_head [of "loaded [fileA, fileB, fileC] [] 3" fileB]
  by (simp add: scenario_defs)

section \<open>Omitted paths\<close>

lemma shouldAddFile_iff:
  "shouldAddFile w file \<longleftrightarrow>
   \<not> (\<exists>p \<in> set (omittedPaths (data w)). p \<noteq> [] \<and> startsWith (path file) p)"
  by (auto simp: shouldAddFile_def find_None_iff)

lemma shouldAddFile_cong:
  "omittedPaths (data w') = omittedPaths (data w) \<Longrightarrow> shouldAddFile w' = shouldAddFile w"
  by (rule ext) (simp add: shouldAddFile_def)

lemma shouldAddFile_pruneOmittedFiles: "shouldAddFile (pruneOmittedFiles w) = shouldAddFile w"
  by (rule shouldAddFile_cong) (simp add: data_pruneOmittedFiles)

text \<open>
  C4. \<open>shouldAddFile\<close> is false exactly when some non-empty entry of \<open>omittedPaths\<close> is a
  prefix of the file's path (\<open>startsWith\<close>). So it is true when \<open>omittedPaths\<close> is empty
  and when all its entries are empty strings, and putting an empty string in front of
  \<open>omittedPaths\<close> changes the answer for no file.
\<close>

theorem shouldAddFile_prefix:
  "(\<not> shouldAddFile w file) =
     (\<exists>p \<in> set (omittedPaths (data w)). p \<noteq> [] \<and> startsWith (path file) p) \<and>
   (omittedPaths (data w) = [] \<longrightarrow> shouldAddFile w file) \<and>
   ((\<forall>p \<in> set (omittedPaths (data w)). p = []) \<longrightarrow> shouldAddFile w file) \<and>
   shouldAddFile (w\<lparr>data := (data w)\<lparr>omittedPaths := [] # omittedPaths (data w)\<rparr>\<rparr>) file =
     shouldAddFile w file"
  by (auto simp: shouldAddFile_iff)

text \<open>
  The scenario \<open>omittedPaths = ["daily/"]\<close> (behind an empty line) and the file
  \<open>daily/2024-01-01\<close>; an empty \<open>omittedPaths\<close>; and one made of empty lines only.
\<close>

theorem shouldAddFile_prefix_witness:
  "\<not> shouldAddFile (loaded [] ['''', ''daily/''] 5) daily \<and>
   startsWith (path daily) ''daily/'' \<and>
   omittedPaths (data (loaded [] [] 5)) = [] \<and>
   shouldAddFile (loaded [] [] 5) daily \<and>
   shouldAddFile (loaded [] ['''', ''''] 5) daily \<and>
   shouldAddFile (loaded [] ['''', ''daily/''] 5) fileA"
  using shouldAddFile_prefix [of "loaded [] ['''', ''daily/''] 5" daily]
    shouldAddFile_prefix [of "loaded [] [] 5" daily]
    shouldAddFile_prefix [of "loaded [] ['''', ''''] 5" daily]
  by (simp add: scenario_defs)

text \<open>
  C5. Pruning twice leaves the data that pruning once leaves, and after one pruning
  \<open>shouldAddFile\<close> holds of every entry that is left.
\<close>

theorem prune_idempotent:
  "data (pruneOmittedFiles (pruneOmittedFiles w)) = data (pruneOmittedFiles w) \<and>
   recentFiles (data (pruneOmittedFiles (pruneOmittedFiles w))) =
     recentFiles (data (pruneOmittedFiles w)) \<and>
   (\<forall>e \<in> set (recentFiles (data (pruneOmittedFiles w))). shouldAddFile (pruneOmittedFiles w) e)"
  by (simp add: data_pruneOmittedFiles shouldAddFile_pruneOmittedFiles)

text \<open>The scenario: the list is A (at \<open>daily/x\<close>), B and \<open>omittedPaths = ["daily/"]\<close>.\<close>

theorem prune_idempotent_witness:
  "recentFiles (data (pruneOmittedFiles (loaded [dailyA, fileB] [''daily/''] 5))) = [fileB] \<and>
   recentFiles (data (pruneOmittedFiles (pruneOmittedFiles (loaded [dailyA, fileB] [''daily/''] 5)))) =
     [fileB] \<and>
   fileB \<in> set (recentFiles (data (pruneOmittedFiles (loaded [dailyA, fileB] [''daily/''] 5)))) \<and>
   shouldAddFile (pruneOmittedFiles (loaded [dailyA, fileB] [''daily/''] 5)) fileB"
  using prune_idempotent [of "loaded [dailyA, fileB] [''daily/''] 5"]
  by (simp add: scenario_defs)

section \<open>The file-open handler\<close>

text \<open>
  C6. When \<open>shouldAddFile\<close> is false of the opened file, \<open>update\<close> returns with the
  state it found: the same data, nothing saved, nothing drawn. The data is different
  after \<open>update\<close> only when \<open>shouldAddFile\<close> is true.
\<close>

theorem update_ignores_omitted:
  "(\<not> shouldAddFile w file \<longrightarrow> update w file = Returned w) \<and>
   (\<not> shouldAddFile w file \<longrightarrow> effects (after (update w file)) = effects w) \<and>
   (data (after (update w file)) \<noteq> data w \<longrightarrow> shouldAddFile w file)"
  by (auto simp: update_def)

text \<open>
  The scenario \<open>omittedPaths = ["daily/"]\<close>: opening \<open>daily/2024-01-01\<close> changes nothing,
  opening B (then the active file) puts B in the list.
\<close>

theorem update_ignores_omitted_witness:
  "\<not> shouldAddFile (loaded [fileA] [''daily/''] 5) daily \<and>
   update (loaded [fileA] [''daily/''] 5) daily = Returned (loaded [fileA] [''daily/''] 5) \<and>
   effects (after (update (loaded [fileA] [''daily/''] 5) daily)) = [] \<and>
   data (after (update ((loaded [fileA] [''daily/''] 5)\<lparr>activeFile := Some fileB\<rparr>) fileB)) \<noteq>
     data ((loaded [fileA] [''daily/''] 5)\<lparr>activeFile := Some fileB\<rparr>) \<and>
   shouldAddFile ((loaded [fileA] [''daily/''] 5)\<lparr>activeFile := Some fileB\<rparr>) fileB"
  using update_ignores_omitted [of "loaded [fileA] [''daily/''] 5" daily]
    update_ignores_omitted [of "(loaded [fileA] [''daily/''] 5)\<lparr>activeFile := Some fileB\<rparr>" fileB]
  by (simp add: scenario_defs update_def redraw_def)

section \<open>Loading\<close>

lemma loadData_saved: "loadData (Some (RecentFilesData_object d)) = RecentFilesData_object d"
  by (rule ext) (simp add: loadData_def Object_assign_def RecentFilesData_object_def map_add_def)

text \<open>
  C7. \<open>loadData\<close> has a result for every blob, the missing one included. Every property
  of the result is the blob's when the blob has it and the default otherwise; the three
  fields are always there; the defaults are an empty \<open>recentFiles\<close>, an empty
  \<open>omittedPaths\<close> and \<open>maxLength = 5\<close>.
\<close>

theorem loadData_defaults:
  "loadData blob k =
     (case blob of
        None \<Rightarrow> RecentFilesData_object DEFAULT_DATA k
      | Some props \<Rightarrow>
          (case props k of None \<Rightarrow> RecentFilesData_object DEFAULT_DATA k | Some v \<Rightarrow> Some v)) \<and>
   loadData blob ''recentFiles'' \<noteq> None \<and>
   loadData blob ''omittedPaths'' \<noteq> None \<and>
   loadData blob ''maxLength'' \<noteq> None \<and>
   RecentFilesData_object DEFAULT_DATA =
     [''recentFiles'' \<mapsto> JArr [], ''omittedPaths'' \<mapsto> JArr [], ''maxLength'' \<mapsto> JNum 5] \<and>
   loadData None = RecentFilesData_object DEFAULT_DATA"
  by (auto simp: loadData_def Object_assign_def RecentFilesData_object_def DEFAULT_DATA_def
      map_add_def split: option.splits)

text \<open>A blob that holds \<open>maxLength\<close> only, and no blob.\<close>

theorem loadData_defaults_witness:
  "loadData (Some [''maxLength'' \<mapsto> JNum 7]) ''maxLength'' = Some (JNum 7) \<and>
   loadData (Some [''maxLength'' \<mapsto> JNum 7]) ''recentFiles'' = Some (JArr []) \<and>
   loadData (Some [''maxLength'' \<mapsto> JNum 7]) ''omittedPaths'' = Some (JArr []) \<and>
   loadData None ''maxLength'' = Some (JNum 5)"
  using loadData_defaults [of "Some [''maxLength'' \<mapsto> JNum 7]" "''maxLength''"]
    loadData_defaults [of "Some [''maxLength'' \<mapsto> JNum 7]" "''recentFiles''"]
    loadData_defaults [of "Some [''maxLength'' \<mapsto> JNum 7]" "''omittedPaths''"]
    loadData_defaults [of None "''maxLength''"]
  by simp

section \<open>Drawing\<close>

lemma rowLabel_navFile: "rowLabel (navFile openFile e) = basename e"
  by (simp add: navFile_def)

lemma rowActive_navFile: "rowActive (navFile openFile e) = (basename e = basename openFile)"
  by (simp add: navFile_def)

lemma redraw_active:
  "redraw (w\<lparr>activeFile := Some openFile\<rparr>) =
     Returned (w\<lparr>activeFile := Some openFile,
                 contentEl := [rootEl (map (navFile openFile) (recentFiles (data w)))],
                 effects := effects w @ [Redrawn]\<rparr>)"
  by (simp add: redraw_def)

text \<open>
  C8. With an active file, \<open>redraw\<close> returns, and the rows it leaves are one for each
  entry of the list, in the order of the list; the labels are the basenames; a row is
  active exactly when the basename of its entry is that of the active file; when that is
  the basename of no entry, no row is active.
\<close>

theorem redraw_rows:
  "\<exists>w'. redraw (w\<lparr>activeFile := Some openFile\<rparr>) = Returned w' \<and>
      rows w' = map (navFile openFile) (recentFiles (data w)) \<and>
      length (rows w') = length (recentFiles (data w)) \<and>
      map rowLabel (rows w') = map basename (recentFiles (data w)) \<and>
      map rowActive (rows w') = map (\<lambda>e. basename e = basename openFile) (recentFiles (data w)) \<and>
      ((\<forall>e \<in> set (recentFiles (data w)). basename e \<noteq> basename openFile) \<longrightarrow>
         (\<forall>r \<in> set (rows w'). \<not> rowActive r))"
  by (auto simp: redraw_active rootEl_def rowLabel_navFile rowActive_navFile comp_def)

text \<open>The list B, A, C drawn while A is active, and while a file outside the list is.\<close>

theorem redraw_rows_witness:
  "(\<exists>w'. redraw ((loaded [fileB, fileA, fileC] [] 3)\<lparr>activeFile := Some fileA\<rparr>) = Returned w' \<and>
      map rowLabel (rows w') = [''B'', ''A'', ''C''] \<and>
      map rowActive (rows w') = [False, True, False]) \<and>
   basename fileB \<noteq> basename daily \<and> basename fileA \<noteq> basename daily \<and>
   basename fileC \<noteq> basename daily \<and>
   (\<exists>w'. redraw ((loaded [fileB, fileA, fileC] [] 3)\<lparr>activeFile := Some daily\<rparr>) = Returned w' \<and>
      map rowLabel (rows w') = [''B'', ''A'', ''C''] \<and>
      map rowActive (rows w') = [False, False, False])"
  using redraw_rows [where w = "loaded [fileB, fileA, fileC] [] 3" and openFile = fileA]
    redraw_rows [where w = "loaded [fileB, fileA, fileC] [] 3" and openFile = daily]
  by (auto simp: scenario_defs)

section \<open>What the mutators leave alone\<close>

text \<open>
  C9. \<open>updateData\<close> and \<open>pruneOmittedFiles\<close> change no field of the data but
  \<open>recentFiles\<close>: \<open>omittedPaths\<close> and \<open>maxLength\<close> are as before.
\<close>

theorem mutators_frame:
  "data (updateData w file) = (data w)\<lparr>recentFiles := recentFiles (data (updateData w file))\<rparr> \<and>
   omittedPaths (data (updateData w file)) = omittedPaths (data w) \<and>
   maxLength (data (updateData w file)) = maxLength (data w) \<and>
   data (pruneOmittedFiles w) = (data w)\<lparr>recentFiles := recentFiles (data (pruneOmittedFiles w))\<rparr> \<and>
   omittedPaths (data (pruneOmittedFiles w)) = omittedPaths (data w) \<and>
   maxLength (data (pruneOmittedFiles w)) = maxLength (data w)"
  by (simp add: updateData_def pruneOmittedFiles_def saveData_def Let_def)

section \<open>Duplicates in the list before a touch\<close>

lemma entriesNamed_take:
  assumes "basename x = name" and "entriesNamed name xs = []"
  shows "entriesNamed name (take n (x # xs)) = (if take n (x # xs) = [] then [] else [x])"
proof (cases n)
  case 0
  then show ?thesis by (simp add: entriesNamed_def)
next
  case (Suc k)
  from assms(2) have "filter (\<lambda>e. basename e = name) (take k xs) = []"
    by (auto simp: entriesNamed_def filter_empty_conv dest: in_set_takeD)
  with assms(1) Suc show ?thesis by (simp add: entriesNamed_def)
qed

text \<open>
  C10, as the code has it. \<open>updateData\<close> drops every earlier entry with the basename of
  the touched file: the entries with that basename afterwards are the new entry alone, or
  none when the bound left the list empty. With \<open>maxLength\<close> at least 1 there is exactly
  one, the new entry.
\<close>

theorem touch_removes_all:
  "entriesNamed (basename file) (recentFiles (data (updateData w file))) =
     (if recentFiles (data (updateData w file)) = [] then []
      else [\<lparr>path = path file, basename = basename file\<rparr>]) \<and>
   length (entriesNamed (basename file) (recentFiles (data (updateData w file)))) \<le> 1 \<and>
   (1 \<le> maxLength (data w) \<longrightarrow>
      entriesNamed (basename file) (recentFiles (data (updateData w file))) =
        [\<lparr>path = path file, basename = basename file\<rparr>])"
proof -
  let ?new = "\<lparr>path = path file, basename = basename file\<rparr>"
  let ?post = "recentFiles (data (updateData w file))"
  have "entriesNamed (basename file)
      (filter (\<lambda>currFile. basename currFile \<noteq> basename file) (recentFiles (data w))) = []"
    by (simp add: entriesNamed_def filter_empty_conv)
  then have 1: "entriesNamed (basename file) ?post = (if ?post = [] then [] else [?new])"
    unfolding recentFiles_updateData touched_def by (intro entriesNamed_take) simp_all
  have 2: "?post \<noteq> []" if "1 \<le> maxLength (data w)"
  proof -
    from that have "nat (maxLength (data w)) = Suc (nat (maxLength (data w) - 1))"
      and "\<not> maxLength (data w) < 0"
      by simp_all
    then show ?thesis
      unfolding recentFiles_updateData touched_def by simp
  qed
  from 1 2 show ?thesis by simp
qed

text \<open>A list that holds the basename A twice, touched with a third file of that name.\<close>

theorem touch_removes_all_witness:
  "1 \<le> maxLength (data (loaded [fileA, fileB, dailyA] [] 3)) \<and>
   recentFiles (data (updateData (loaded [fileA, fileB, dailyA] [] 3) otherA)) = [otherA, fileB] \<and>
   entriesNamed (basename otherA)
     (recentFiles (data (updateData (loaded [fileA, fileB, dailyA] [] 3) otherA))) = [otherA]"
  using touch_removes_all [of otherA "loaded [fileA, fileB, dailyA] [] 3"]
  by (simp add: scenario_defs entriesNamed_def)

text \<open>
  C10 as stated fails where the bound is 0: the list is empty after the touch, so no
  entry carries the basename.
\<close>

theorem touch_removes_all_counterexample:
  "recentFiles (data (updateData (loaded [fileA, fileB, dailyA] [] 0) otherA)) = [] \<and>
   length (entriesNamed (basename otherA)
     (recentFiles (data (updateData (loaded [fileA, fileB, dailyA] [] 0) otherA)))) \<noteq> 1"
  by (simp add: scenario_defs entriesNamed_def)

end
